theory Spec2Isabelle
  imports Main
begin

section \<open>The request router of the Smart Study Tool (main.py)\<close>

text \<open>
  The handlers of main.py are glue around imported functions: the extraction and
  generation functions of the module functions, the video functions of the module
  youtubefunctions, and the info extractor of yt_dlp. Those are parameters of the
  model (the record \<open>env\<close>); each returns a value or raises. A handler is modelled
  as the list of calls it makes to them, in order, together with what it returns or
  raises.
\<close>

subsection \<open>Exceptions\<close>

text \<open>
  Python exceptions below \<open>Exception\<close>: an \<open>HTTPException\<close> with its status code and
  detail, or any other exception, identified by what \<open>str\<close> gives for it.
\<close>

datatype exn = HTTPException nat string | Exception string

subsection \<open>Calls to the imported functions\<close>

datatype 'f call =
    ProcessUploadedFile 'f
  | GenerateFlashcards string
  | GenerateMcqs string
  | CreateMindMap string
  | GenerateLearningPath string
  | CreateStickyNotes string
  | GenerateExamQuestions string
  | GetVideoId string
  | ExtractInfo string
  | GetTranscript string
  | SummarizeTranscript string
  | DownloadAudio string
  | TranscribeAudio string
  | GenerateSummary string

subsection \<open>Python values and the info dictionary\<close>

text \<open>
  The values the handlers move around without looking inside: \<open>None\<close>, a string or
  an integer. The info dictionary of yt_dlp maps keys to such values; \<open>info.get(k, d)\<close>
  gives the stored value when the key is there, also when that value is \<open>None\<close>, and
  \<open>d\<close> only when the key is absent. A result of the info extractor that is not a
  dictionary makes the first \<open>get\<close> raise inside the same \<open>try\<close> block, so it counts
  among the raising results.
\<close>

datatype pyval = PyNone | PyStr string | PyInt int

type_synonym info_dict = "string \<Rightarrow> pyval option"

text \<open>
  The imported functions. \<open>http_str\<close> is \<open>str\<close> of an \<open>HTTPException\<close>, which the
  web framework defines, given the status code and the detail. Two more parameters
  belong to the schema library that checks a response model: \<open>coerce_str\<close> says
  whether an integer given for a string field is converted (and to what) or rejected,
  and \<open>validation_error\<close> is \<open>str\<close> of the error raised for the rejected fields.
\<close>

record ('f, 'r) env =
  http_str :: "nat \<Rightarrow> string \<Rightarrow> string"
  coerce_str :: "int \<Rightarrow> string option"
  validation_error :: "(string \<times> pyval) list \<Rightarrow> string"
  process_uploaded_file :: "'f \<Rightarrow> exn + string"
  generate_flashcards :: "string \<Rightarrow> exn + 'r"
  generate_mcqs :: "string \<Rightarrow> exn + 'r"
  create_mind_map :: "string \<Rightarrow> exn + 'r"
  generate_learning_path :: "string \<Rightarrow> exn + 'r"
  create_sticky_notes :: "string \<Rightarrow> exn + 'r"
  generate_exam_questions :: "string \<Rightarrow> exn + 'r"
  get_video_id :: "string \<Rightarrow> exn + string option"
  extract_info :: "string \<Rightarrow> exn + info_dict"
  get_transcript :: "string \<Rightarrow> exn + string option"
  summarize_transcript :: "string \<Rightarrow> exn + pyval"
  download_audio :: "string \<Rightarrow> exn + string"
  transcribe_audio :: "string \<Rightarrow> exn + string"
  generate_summary :: "string \<Rightarrow> exn + pyval"

fun str_exn :: "('f, 'r) env \<Rightarrow> exn \<Rightarrow> string" where
  "str_exn env (HTTPException status_code detail) = http_str env status_code detail"
| "str_exn env (Exception s) = s"

subsection \<open>Handlers as traces with an outcome\<close>

type_synonym ('c, 'a) io = "'c list \<times> (exn + 'a)"

definition ret :: "'a \<Rightarrow> ('c, 'a) io" where
  "ret x = ([], Inr x)"

definition raise :: "exn \<Rightarrow> ('c, 'a) io" where
  "raise e = ([], Inl e)"

definition invoke :: "'c \<Rightarrow> exn + 'a \<Rightarrow> ('c, 'a) io" where
  "invoke c r = ([c], r)"

definition bind :: "('c, 'a) io \<Rightarrow> ('a \<Rightarrow> ('c, 'b) io) \<Rightarrow> ('c, 'b) io" where
  "bind m f =
     (case m of
        (t, Inl e) \<Rightarrow> (t, Inl e)
      | (t, Inr x) \<Rightarrow> (case f x of (t', r) \<Rightarrow> (t @ t', r)))"

definition try_except :: "('c, 'a) io \<Rightarrow> (exn \<Rightarrow> ('c, 'a) io) \<Rightarrow> ('c, 'a) io" where
  "try_except m h =
     (case m of
        (t, Inl e) \<Rightarrow> (case h e of (t', r) \<Rightarrow> (t @ t', r))
      | (t, Inr x) \<Rightarrow> (t, Inr x))"

text \<open>Truth value of an optional string: \<open>None\<close> and the empty string are false.\<close>

fun truthy :: "string option \<Rightarrow> bool" where
  "truthy None = False"
| "truthy (Some s) = (s \<noteq> [])"

text \<open>The string a true optional string holds.\<close>

fun str_of :: "string option \<Rightarrow> string" where
  "str_of None = []"
| "str_of (Some s) = s"

text \<open>
  What the framework answers: 200 for a returned value, the status code of a raised
  \<open>HTTPException\<close>, 500 for any other exception.
\<close>

fun response_status :: "exn + 'a \<Rightarrow> nat" where
  "response_status (Inr x) = 200"
| "response_status (Inl (HTTPException status_code detail)) = status_code"
| "response_status (Inl (Exception s)) = 500"

subsection \<open>The generate endpoints\<close>

text \<open>
  \<open>file\<close> is an upload object or \<open>None\<close>; an upload object is true. \<open>text\<close> is a
  string or \<open>None\<close>. Each of the six handlers opens with the same chain
  \<open>if file / elif text / else\<close> to choose the content; \<open>get_content\<close> is that chain.
\<close>

definition get_content :: "('f, 'r) env \<Rightarrow> 'f option \<Rightarrow> string option \<Rightarrow> ('f call, string) io" where
  "get_content env file text =
     (case file of
        Some f \<Rightarrow> invoke (ProcessUploadedFile f) (process_uploaded_file env f)
      | None \<Rightarrow>
          (case text of
             Some t \<Rightarrow>
               if truthy text then ret t
               else raise (HTTPException 400 ''Please provide either a file or text'')
           | None \<Rightarrow> raise (HTTPException 400 ''Please provide either a file or text'')))"

definition create_flashcards :: "('f, 'r) env \<Rightarrow> 'f option \<Rightarrow> string option \<Rightarrow> ('f call, 'r) io" where
  "create_flashcards env file text =
     try_except
       (bind (get_content env file text)
          (\<lambda>content. invoke (GenerateFlashcards content) (generate_flashcards env content)))
       (\<lambda>e. raise (HTTPException 500 (''Error generating flashcards: '' @ str_exn env e)))"

definition create_mcqs :: "('f, 'r) env \<Rightarrow> 'f option \<Rightarrow> string option \<Rightarrow> ('f call, 'r) io" where
  "create_mcqs env file text =
     try_except
       (bind (get_content env file text)
          (\<lambda>content. invoke (GenerateMcqs content) (generate_mcqs env content)))
       (\<lambda>e. raise (HTTPException 500 (''Error generating MCQs: '' @ str_exn env e)))"

definition create_mindmap :: "('f, 'r) env \<Rightarrow> 'f option \<Rightarrow> string option \<Rightarrow> ('f call, 'r) io" where
  "create_mindmap env file text =
     try_except
       (bind (get_content env file text)
          (\<lambda>content. invoke (CreateMindMap content) (create_mind_map env content)))
       (\<lambda>e. raise (HTTPException 500 (''Error generating mind map: '' @ str_exn env e)))"

definition create_learning_path :: "('f, 'r) env \<Rightarrow> 'f option \<Rightarrow> string option \<Rightarrow> ('f call, 'r) io" where
  "create_learning_path env file text =
     try_except
       (bind (get_content env file text)
          (\<lambda>content. invoke (GenerateLearningPath content) (generate_learning_path env content)))
       (\<lambda>e. raise (HTTPException 500 (''Error generating learning path: '' @ str_exn env e)))"

definition create_smart_sticky_notes :: "('f, 'r) env \<Rightarrow> 'f option \<Rightarrow> string option \<Rightarrow> ('f call, 'r) io" where
  "create_smart_sticky_notes env file text =
     try_except
       (bind (get_content env file text)
          (\<lambda>content. invoke (CreateStickyNotes content) (create_sticky_notes env content)))
       (\<lambda>e. raise (HTTPException 500 (''Error generating sticky notes: '' @ str_exn env e)))"

definition create_exam_questions :: "('f, 'r) env \<Rightarrow> 'f option \<Rightarrow> string option \<Rightarrow> ('f call, 'r) io" where
  "create_exam_questions env file text =
     try_except
       (bind (get_content env file text)
          (\<lambda>content. invoke (GenerateExamQuestions content) (generate_exam_questions env content)))
       (\<lambda>e. raise (HTTPException 500 (''Error generating exam questions: '' @ str_exn env e)))"

text \<open>The six routes, each with its generation function and the words of its error.\<close>

datatype endpoint = Flashcards | MCQs | MindMap | LearningPath | StickyNotes | ExamQuestions

fun generate_endpoint ::
  "endpoint \<Rightarrow> ('f, 'r) env \<Rightarrow> 'f option \<Rightarrow> string option \<Rightarrow> ('f call, 'r) io" where
  "generate_endpoint Flashcards = create_flashcards"
| "generate_endpoint MCQs = create_mcqs"
| "generate_endpoint MindMap = create_mindmap"
| "generate_endpoint LearningPath = create_learning_path"
| "generate_endpoint StickyNotes = create_smart_sticky_notes"
| "generate_endpoint ExamQuestions = create_exam_questions"

fun generator :: "endpoint \<Rightarrow> ('f, 'r) env \<Rightarrow> string \<Rightarrow> exn + 'r" where
  "generator Flashcards = generate_flashcards"
| "generator MCQs = generate_mcqs"
| "generator MindMap = create_mind_map"
| "generator LearningPath = generate_learning_path"
| "generator StickyNotes = create_sticky_notes"
| "generator ExamQuestions = generate_exam_questions"

fun generator_call :: "endpoint \<Rightarrow> string \<Rightarrow> 'f call" where
  "generator_call Flashcards = GenerateFlashcards"
| "generator_call MCQs = GenerateMcqs"
| "generator_call MindMap = CreateMindMap"
| "generator_call LearningPath = GenerateLearningPath"
| "generator_call StickyNotes = CreateStickyNotes"
| "generator_call ExamQuestions = GenerateExamQuestions"

fun doing :: "endpoint \<Rightarrow> string" where
  "doing Flashcards = ''generating flashcards''"
| "doing MCQs = ''generating MCQs''"
| "doing MindMap = ''generating mind map''"
| "doing LearningPath = ''generating learning path''"
| "doing StickyNotes = ''generating sticky notes''"
| "doing ExamQuestions = ''generating exam questions''"

subsection \<open>The video endpoints\<close>

record video_request =
  url :: string

text \<open>
  The response model: \<open>video_id\<close>, \<open>title\<close>, \<open>thumbnail\<close>, \<open>summary\<close> and \<open>source\<close>
  are declared \<open>str\<close>, \<open>duration\<close> is declared \<open>Optional[str]\<close>.
\<close>

record video_summary_response =
  video_id :: string
  title :: string
  thumbnail :: string
  summary :: string
  source :: string
  duration :: "string option"

text \<open>
  What the model's constructor accepts for a field declared \<open>str\<close>, and for one
  declared \<open>Optional[str]\<close>; \<open>None\<close> as result means the value is rejected.
\<close>

fun validate_str :: "('f, 'r) env \<Rightarrow> pyval \<Rightarrow> string option" where
  "validate_str env (PyStr s) = Some s"
| "validate_str env PyNone = None"
| "validate_str env (PyInt n) = coerce_str env n"

fun validate_optional_str :: "('f, 'r) env \<Rightarrow> pyval \<Rightarrow> string option option" where
  "validate_optional_str env PyNone = Some None"
| "validate_optional_str env (PyStr s) = Some (Some s)"
| "validate_optional_str env (PyInt n) = map_option Some (coerce_str env n)"

text \<open>The fields the constructor rejects, in the order the model declares them.\<close>

definition rejected_fields ::
  "('f, 'r) env \<Rightarrow> pyval \<Rightarrow> pyval \<Rightarrow> pyval \<Rightarrow> pyval \<Rightarrow> (string \<times> pyval) list" where
  "rejected_fields env title_v thumbnail_v summary_v duration_v =
     (if validate_str env title_v = None then [(''title'', title_v)] else [])
     @ (if validate_str env thumbnail_v = None then [(''thumbnail'', thumbnail_v)] else [])
     @ (if validate_str env summary_v = None then [(''summary'', summary_v)] else [])
     @ (if validate_optional_str env duration_v = None then [(''duration'', duration_v)] else [])"

text \<open>
  The call \<open>VideoSummaryResponse(video_id=..., title=..., ...)\<close>: it returns the response
  when every field is accepted and raises the validation error otherwise. The video id
  and the source are strings where the handler builds the response.
\<close>

definition VideoSummaryResponse ::
  "('f, 'r) env \<Rightarrow> string \<Rightarrow> pyval \<Rightarrow> pyval \<Rightarrow> pyval \<Rightarrow> string \<Rightarrow> pyval
     \<Rightarrow> exn + video_summary_response" where
  "VideoSummaryResponse env vid title_v thumbnail_v summary_v source_v duration_v =
     (case validate_str env title_v of
        None \<Rightarrow> Inl (Exception (validation_error env
                  (rejected_fields env title_v thumbnail_v summary_v duration_v)))
      | Some ti \<Rightarrow>
     (case validate_str env thumbnail_v of
        None \<Rightarrow> Inl (Exception (validation_error env
                  (rejected_fields env title_v thumbnail_v summary_v duration_v)))
      | Some th \<Rightarrow>
     (case validate_str env summary_v of
        None \<Rightarrow> Inl (Exception (validation_error env
                  (rejected_fields env title_v thumbnail_v summary_v duration_v)))
      | Some su \<Rightarrow>
     (case validate_optional_str env duration_v of
        None \<Rightarrow> Inl (Exception (validation_error env
                  (rejected_fields env title_v thumbnail_v summary_v duration_v)))
      | Some du \<Rightarrow>
          Inr \<lparr>video_id = vid, title = ti, thumbnail = th, summary = su,
               source = source_v, duration = du\<rparr>))))"

text \<open>A step of a handler that calls no imported function.\<close>

definition of_result :: "exn + 'a \<Rightarrow> ('c, 'a) io" where
  "of_result r = ([], r)"

definition default_thumbnail :: "string \<Rightarrow> string" where
  "default_thumbnail vid = ''https://img.youtube.com/vi/'' @ vid @ ''/maxresdefault.jpg''"

definition dict_get :: "'a option \<Rightarrow> 'a \<Rightarrow> 'a" where
  "dict_get v d = (case v of None \<Rightarrow> d | Some x \<Rightarrow> x)"

text \<open>
  The metadata step of the summarizer: the bare \<open>except\<close> replaces any failure by the
  three defaults.
\<close>

definition fetch_metadata ::
  "('f, 'r) env \<Rightarrow> string \<Rightarrow> string \<Rightarrow> ('f call, pyval \<times> pyval \<times> pyval) io" where
  "fetch_metadata env video_url vid =
     try_except
       (bind (invoke (ExtractInfo video_url) (extract_info env video_url))
          (\<lambda>info. ret (dict_get (info ''title'') (PyStr ''YouTube Video''),
                         dict_get (info ''thumbnail'') (PyStr (default_thumbnail vid)),
                         dict_get (info ''duration_string'') (PyStr ''Unknown''))))
       (\<lambda>e. ret (PyStr ''YouTube Video'', PyStr (default_thumbnail vid), PyStr ''Unknown''))"

definition audio_fallback :: "('f, 'r) env \<Rightarrow> string \<Rightarrow> ('f call, pyval \<times> string) io" where
  "audio_fallback env video_url =
     try_except
       (bind (invoke (DownloadAudio video_url) (download_audio env video_url))
          (\<lambda>audio_path.
             bind (invoke (TranscribeAudio audio_path) (transcribe_audio env audio_path))
               (\<lambda>transcript_text.
                  bind (invoke (GenerateSummary transcript_text) (generate_summary env transcript_text))
                    (\<lambda>summary. ret (summary, ''audio'')))))
       (\<lambda>e. raise (HTTPException 500 (''Audio processing failed: '' @ str_exn env e)))"

definition summarize_youtube_video ::
  "('f, 'r) env \<Rightarrow> video_request \<Rightarrow> ('f call, video_summary_response) io" where
  "summarize_youtube_video env request =
     try_except
       (let video_url = url request in
        bind (invoke (GetVideoId video_url) (get_video_id env video_url))
          (\<lambda>vid_opt.
             if \<not> truthy vid_opt then raise (HTTPException 400 ''Invalid YouTube URL'')
             else
               (let vid = str_of vid_opt in
                bind (fetch_metadata env video_url vid)
                  (\<lambda>(title, thumbnail, duration).
                     bind (invoke (GetTranscript vid) (get_transcript env vid))
                       (\<lambda>transcript.
                          bind (if truthy transcript
                                then bind (invoke (SummarizeTranscript (str_of transcript))
                                             (summarize_transcript env (str_of transcript)))
                                       (\<lambda>summary. ret (summary, ''transcript''))
                                else audio_fallback env video_url)
                            (\<lambda>(summary, source).
                               of_result
                                 (VideoSummaryResponse env vid title thumbnail summary source
                                    duration)))))))
       (\<lambda>e. case e of
               HTTPException status_code detail \<Rightarrow> raise e
             | Exception s \<Rightarrow>
                 raise (HTTPException 500 (''Error processing video: '' @ str_exn env e)))"

text \<open>The answer of the video-info route is a dictionary of the values as they are stored.\<close>

definition get_video_info ::
  "('f, 'r) env \<Rightarrow> string \<Rightarrow> ('f call, (string \<times> pyval) list) io" where
  "get_video_info env vid =
     try_except
       (let video_url = ''https://www.youtube.com/watch?v='' @ vid in
        bind (invoke (ExtractInfo video_url) (extract_info env video_url))
          (\<lambda>info. ret
             [(''video_id'', PyStr vid),
              (''title'', dict_get (info ''title'') (PyStr ''YouTube Video'')),
              (''thumbnail'', dict_get (info ''thumbnail'') (PyStr (default_thumbnail vid))),
              (''duration'', dict_get (info ''duration_string'') (PyStr ''Unknown'')),
              (''channel'', dict_get (info ''uploader'') (PyStr ''Unknown Channel'')),
              (''view_count'', dict_get (info ''view_count'') (PyInt 0))]))
       (\<lambda>e. raise (HTTPException 500 (''Error fetching video info: '' @ str_exn env e)))"

subsection \<open>The health endpoint\<close>

definition health_check :: "('f call, (string \<times> string) list) io" where
  "health_check = ret [(''status'', ''healthy''), (''version'', ''1.0.0'')]"


subsection \<open>Stand-ins for the imported functions\<close>

text \<open>
  Concrete imported functions, as a test would supply them: files are named by strings,
  a generated artefact is a string, and one URL has a video id.
\<close>

definition stub_info :: info_dict where
  "stub_info =
     map_of [(''title'', PyStr ''A lecture''), (''duration_string'', PyStr ''12:30''),
             (''view_count'', PyInt 7)]"

definition stub_env :: "(string, string) env" where
  "stub_env =
     \<lparr>http_str = (\<lambda>status_code detail. detail),
      coerce_str = (\<lambda>n. None),
      validation_error = (\<lambda>fields. ''validation error for VideoSummaryResponse''),
      process_uploaded_file = (\<lambda>f. Inr (''contents of '' @ f)),
      generate_flashcards = (\<lambda>c. Inr (''flashcards: '' @ c)),
      generate_mcqs = (\<lambda>c. Inr (''mcqs: '' @ c)),
      create_mind_map = (\<lambda>c. Inr (''mind map: '' @ c)),
      generate_learning_path = (\<lambda>c. Inr (''learning path: '' @ c)),
      create_sticky_notes = (\<lambda>c. Inr (''sticky notes: '' @ c)),
      generate_exam_questions = (\<lambda>c. Inr (''exam questions: '' @ c)),
      get_video_id =
        (\<lambda>u. if u = ''https://youtu.be/abc123'' then Inr (Some ''abc123'')
             else if u = ''https://youtu.be/xyz789'' then Inr (Some ''xyz789'')
             else Inr None),
      extract_info = (\<lambda>u. Inr stub_info),
      get_transcript = (\<lambda>v. Inr (Some ''hello'')),
      summarize_transcript = (\<lambda>t. Inr (PyStr (''summary of '' @ t))),
      download_audio = (\<lambda>u. Inr ''audio.mp3''),
      transcribe_audio = (\<lambda>p. Inr ''spoken words''),
      generate_summary = (\<lambda>t. Inr (PyStr (''summary of '' @ t)))\<rparr>"

definition stub_request :: video_request where
  "stub_request = \<lparr>url = ''https://youtu.be/abc123''\<rparr>"

text \<open>Extraction of one file, one generation function and the info extractor raise.\<close>

definition failing_env :: "exn \<Rightarrow> (string, string) env" where
  "failing_env e =
     stub_env\<lparr>process_uploaded_file :=
                (\<lambda>f. if f = ''broken.pdf'' then Inl e else Inr (''contents of '' @ f)),
              generate_mcqs := (\<lambda>c. Inl e),
              extract_info := (\<lambda>u. Inl e)\<rparr>"

text \<open>No transcript; the three steps of the audio branch answer as given.\<close>

definition audio_env ::
  "exn + string \<Rightarrow> exn + string \<Rightarrow> exn + pyval \<Rightarrow> (string, string) env" where
  "audio_env d t g =
     stub_env\<lparr>get_transcript := (\<lambda>v. Inr None),
              download_audio := (\<lambda>u. d),
              transcribe_audio := (\<lambda>p. t),
              generate_summary := (\<lambda>x. g)\<rparr>"

definition summarizer_down_env :: "(string, string) env" where
  "summarizer_down_env =
     stub_env\<lparr>summarize_transcript := (\<lambda>t. Inl (Exception ''model unavailable''))\<rparr>"

text \<open>The info dictionary holds the key \<open>title\<close> with the value \<open>None\<close>.\<close>

definition null_title_env :: "(string, string) env" where
  "null_title_env =
     stub_env\<lparr>extract_info := (\<lambda>u. Inr (map_of [(''title'', PyNone)]))\<rparr>"

definition no_metadata_env :: "(string, string) env" where
  "no_metadata_env = stub_env\<lparr>extract_info := (\<lambda>u. Inl (Exception ''network down''))\<rparr>"

section \<open>Properties\<close>

subsection \<open>Running a handler\<close>

lemma io_bind_simps:
  "bind (t, Inl e) f = (t, Inl e)"
  "bind (t, Inr x) f = (t @ fst (f x), snd (f x))"
  by (simp_all add: bind_def split: prod.splits)

lemma io_try_except_simps:
  "try_except (t, Inl e) h = (t @ fst (h e), snd (h e))"
  "try_except (t, Inr x) h = (t, Inr x)"
  by (simp_all add: try_except_def split: prod.splits)

lemmas io_defs = ret_def raise_def invoke_def

subsection \<open>The generate endpoints\<close>

text \<open>The six handlers are one shape, with the generation function and the message varying.\<close>

lemma generate_endpoint_unfold:
  "generate_endpoint k env file text =
     try_except
       (bind (get_content env file text)
          (\<lambda>content. invoke (generator_call k content) (generator k env content)))
       (\<lambda>e. raise (HTTPException 500 (''Error '' @ doing k @ '': '' @ str_exn env e)))"
  by (cases k)
     (simp_all add: create_flashcards_def create_mcqs_def create_mindmap_def
        create_learning_path_def create_smart_sticky_notes_def create_exam_questions_def)

lemma generate_endpoint_no_input:
  "\<not> truthy text \<Longrightarrow> generate_endpoint k env None text =
     ([], Inl (HTTPException 500 (''Error '' @ doing k @ '': '' @
        http_str env 400 ''Please provide either a file or text'')))"
  by (cases "text")
     (simp_all add: generate_endpoint_unfold get_content_def io_defs io_bind_simps
        io_try_except_simps)

lemma generate_endpoint_text:
  "t \<noteq> [] \<Longrightarrow> generate_endpoint k env None (Some t) =
     ([generator_call k t],
      case generator k env t of
        Inl e \<Rightarrow> Inl (HTTPException 500 (''Error '' @ doing k @ '': '' @ str_exn env e))
      | Inr r \<Rightarrow> Inr r)"
  by (cases "generator k env t")
     (simp_all add: generate_endpoint_unfold get_content_def io_defs io_bind_simps
        io_try_except_simps)

lemma generate_endpoint_file_raises:
  "process_uploaded_file env f = Inl e \<Longrightarrow> generate_endpoint k env (Some f) text =
     ([ProcessUploadedFile f],
      Inl (HTTPException 500 (''Error '' @ doing k @ '': '' @ str_exn env e)))"
  by (simp add: generate_endpoint_unfold get_content_def io_defs io_bind_simps
        io_try_except_simps)

lemma generate_endpoint_file_returns:
  "process_uploaded_file env f = Inr c \<Longrightarrow> generate_endpoint k env (Some f) text =
     ([ProcessUploadedFile f, generator_call k c],
      case generator k env c of
        Inl e \<Rightarrow> Inl (HTTPException 500 (''Error '' @ doing k @ '': '' @ str_exn env e))
      | Inr r \<Rightarrow> Inr r)"
  by (cases "generator k env c")
     (simp_all add: generate_endpoint_unfold get_content_def io_defs io_bind_simps
        io_try_except_simps)

text \<open>
  C1: a generate endpoint called with neither file nor text calls no imported function,
  but what it raises is not a client error. The \<open>HTTPException\<close> with status 400 is
  raised inside the \<open>try\<close> block, whose \<open>except Exception\<close> clause catches it and raises
  an \<open>HTTPException\<close> with status 500 in its place; the detail is the words of the
  endpoint followed by \<open>str\<close> of the caught exception. This holds for each of the six
  endpoints and whatever the imported functions do.
\<close>

theorem missing_input_answers_500:
  "generate_endpoint k env None None =
     ([], Inl (HTTPException 500 (''Error '' @ doing k @ '': '' @
        http_str env 400 ''Please provide either a file or text'')))
   \<and> response_status (snd (generate_endpoint k env None None)) = 500"
  by (simp add: generate_endpoint_no_input)

text \<open>
  C3: for every generate endpoint, an exception of the extraction function, or of the
  generation function (on extracted content or on supplied text), ends the request with
  an \<open>HTTPException\<close> of status 500 whose detail is "Error", the words of the endpoint,
  a colon and \<open>str\<close> of the exception. The calls made are the ones up to the failing
  call, each once, and no value is returned.
\<close>

theorem collaborator_exception_is_500:
  "(process_uploaded_file env f = Inl e \<longrightarrow>
      generate_endpoint k env (Some f) text =
        ([ProcessUploadedFile f],
         Inl (HTTPException 500 (''Error '' @ doing k @ '': '' @ str_exn env e))))
   \<and> (process_uploaded_file env f = Inr c \<and> generator k env c = Inl e \<longrightarrow>
      generate_endpoint k env (Some f) text =
        ([ProcessUploadedFile f, generator_call k c],
         Inl (HTTPException 500 (''Error '' @ doing k @ '': '' @ str_exn env e))))
   \<and> (t \<noteq> [] \<and> generator k env t = Inl e \<longrightarrow>
      generate_endpoint k env None (Some t) =
        ([generator_call k t],
         Inl (HTTPException 500 (''Error '' @ doing k @ '': '' @ str_exn env e))))"
  by (simp add: generate_endpoint_file_raises generate_endpoint_file_returns
        generate_endpoint_text)

theorem collaborator_exception_is_500_witness:
  "generate_endpoint Flashcards (failing_env (Exception ''disk full'')) (Some ''broken.pdf'') None =
     ([ProcessUploadedFile ''broken.pdf''],
      Inl (HTTPException 500 ''Error generating flashcards: disk full''))
   \<and> generate_endpoint MCQs (failing_env (Exception ''quota exceeded'')) (Some ''notes.txt'') None =
     ([ProcessUploadedFile ''notes.txt'', GenerateMcqs ''contents of notes.txt''],
      Inl (HTTPException 500 ''Error generating MCQs: quota exceeded''))
   \<and> generate_endpoint MCQs (failing_env (Exception ''quota exceeded'')) None (Some ''cells'') =
     ([GenerateMcqs ''cells''],
      Inl (HTTPException 500 ''Error generating MCQs: quota exceeded''))"
proof -
  have h1: "process_uploaded_file (failing_env (Exception ''disk full'')) ''broken.pdf''
              = Inl (Exception ''disk full'')"
    by (simp add: failing_env_def)
  have h2: "process_uploaded_file (failing_env (Exception ''quota exceeded'')) ''notes.txt''
              = Inr ''contents of notes.txt''
            \<and> generator MCQs (failing_env (Exception ''quota exceeded'')) ''contents of notes.txt''
              = Inl (Exception ''quota exceeded'')"
    by (simp add: failing_env_def)
  have h3: "''cells'' \<noteq> []
            \<and> generator MCQs (failing_env (Exception ''quota exceeded'')) ''cells''
              = Inl (Exception ''quota exceeded'')"
    by (simp add: failing_env_def)
  from collaborator_exception_is_500
         [of "failing_env (Exception ''disk full'')" "''broken.pdf''" "Exception ''disk full''"
             Flashcards None]
       h1
  have c1: "generate_endpoint Flashcards (failing_env (Exception ''disk full''))
              (Some ''broken.pdf'') None =
            ([ProcessUploadedFile ''broken.pdf''],
             Inl (HTTPException 500 ''Error generating flashcards: disk full''))"
    by simp
  from collaborator_exception_is_500
         [of "failing_env (Exception ''quota exceeded'')" "''notes.txt''"
             "Exception ''quota exceeded''" MCQs None "''contents of notes.txt''" "''cells''"]
       h2 h3
  have c2: "generate_endpoint MCQs (failing_env (Exception ''quota exceeded''))
              (Some ''notes.txt'') None =
     ([ProcessUploadedFile ''notes.txt'', GenerateMcqs ''contents of notes.txt''],
      Inl (HTTPException 500 ''Error generating MCQs: quota exceeded''))
   \<and> generate_endpoint MCQs (failing_env (Exception ''quota exceeded'')) None (Some ''cells'') =
     ([GenerateMcqs ''cells''],
      Inl (HTTPException 500 ''Error generating MCQs: quota exceeded''))"
    by simp
  from c1 c2 show ?thesis by simp
qed

text \<open>
  C5: for every generate endpoint, with no file and a text that is not empty, the only
  call made is the one to the matching generation function, with the text as it was
  supplied; the extraction function is not called. What the generation function returns
  is what the handler returns.
\<close>

theorem text_only_bypasses_extraction:
  "t \<noteq> [] \<longrightarrow>
     fst (generate_endpoint k env None (Some t)) = [generator_call k t]
     \<and> (generator k env t = Inr r \<longrightarrow>
          generate_endpoint k env None (Some t) = ([generator_call k t], Inr r))"
  by (simp add: generate_endpoint_text)

theorem text_only_bypasses_extraction_witness:
  "fst (generate_endpoint StickyNotes stub_env None (Some ''mitosis''))
     = [CreateStickyNotes ''mitosis'']
   \<and> generate_endpoint StickyNotes stub_env None (Some ''mitosis'') =
       ([CreateStickyNotes ''mitosis''], Inr ''sticky notes: mitosis'')"
proof -
  have h: "''mitosis'' \<noteq> []
           \<and> generator StickyNotes stub_env ''mitosis'' = Inr ''sticky notes: mitosis''"
    by (simp add: stub_env_def)
  from text_only_bypasses_extraction
         [of "''mitosis''" StickyNotes stub_env "''sticky notes: mitosis''"] h
  show ?thesis by simp
qed

text \<open>
  C8: for every generate endpoint, an empty text with no file takes the branch that
  raises the missing-input exception, the handler does exactly what it does with no
  text at all, and no imported function is called.
\<close>

theorem empty_text_is_missing_input:
  "get_content env None (Some []) =
     raise (HTTPException 400 ''Please provide either a file or text'')
   \<and> generate_endpoint k env None (Some []) = generate_endpoint k env None None
   \<and> fst (generate_endpoint k env None (Some [])) = []"
  by (simp add: generate_endpoint_no_input get_content_def)

text \<open>
  C9: for every generate endpoint, when a file is supplied the handler does the same
  whatever the text field holds or whether it is there: the content given to the
  generation function is what the extraction function returned for the file.
\<close>

theorem file_takes_precedence:
  "generate_endpoint k env (Some f) text = generate_endpoint k env (Some f) None
   \<and> (process_uploaded_file env f = Inr c \<longrightarrow>
        fst (generate_endpoint k env (Some f) text) = [ProcessUploadedFile f, generator_call k c])
   \<and> (process_uploaded_file env f = Inr c \<and> generator k env c = Inr r \<longrightarrow>
        generate_endpoint k env (Some f) text = ([ProcessUploadedFile f, generator_call k c], Inr r))"
  by (cases "process_uploaded_file env f")
     (simp_all add: generate_endpoint_file_raises generate_endpoint_file_returns)

theorem file_takes_precedence_witness:
  "generate_endpoint LearningPath stub_env (Some ''notes.txt'') (Some ''typed text'') =
     generate_endpoint LearningPath stub_env (Some ''notes.txt'') None
   \<and> generate_endpoint LearningPath stub_env (Some ''notes.txt'') (Some ''typed text'') =
       ([ProcessUploadedFile ''notes.txt'', GenerateLearningPath ''contents of notes.txt''],
        Inr ''learning path: contents of notes.txt'')"
proof -
  have h: "process_uploaded_file stub_env ''notes.txt'' = Inr ''contents of notes.txt''
           \<and> generator LearningPath stub_env ''contents of notes.txt''
               = Inr ''learning path: contents of notes.txt''"
    by (simp add: stub_env_def)
  note r = file_takes_precedence [of LearningPath stub_env "''notes.txt''" "Some ''typed text''"
         "''contents of notes.txt''" "''learning path: contents of notes.txt''"]
  from r have a:
    "generate_endpoint LearningPath stub_env (Some ''notes.txt'') (Some ''typed text'') =
     generate_endpoint LearningPath stub_env (Some ''notes.txt'') None"
    by (rule conjunct1)
  from r [THEN conjunct2, THEN conjunct2] h have b:
    "generate_endpoint LearningPath stub_env (Some ''notes.txt'') (Some ''typed text'') =
       ([ProcessUploadedFile ''notes.txt'', GenerateLearningPath ''contents of notes.txt''],
        Inr ''learning path: contents of notes.txt'')"
    by simp
  from a b show ?thesis by (rule conjI)
qed

subsection \<open>The video endpoints\<close>

text \<open>Replacing the info extractor leaves every other imported function as it was.\<close>

lemma str_exn_extract_info [simp]:
  "str_exn (env\<lparr>extract_info := g\<rparr>) e = str_exn env e"
  by (cases e) simp_all

lemma validate_str_extract_info [simp]:
  "validate_str (env\<lparr>extract_info := g\<rparr>) v = validate_str env v"
  by (cases v) simp_all

lemma validate_optional_str_extract_info [simp]:
  "validate_optional_str (env\<lparr>extract_info := g\<rparr>) v = validate_optional_str env v"
  by (cases v) simp_all

lemma audio_fallback_extract_info [simp]:
  "audio_fallback (env\<lparr>extract_info := g\<rparr>) u = audio_fallback env u"
  by (simp add: audio_fallback_def)

lemma VideoSummaryResponse_extract_info [simp]:
  "VideoSummaryResponse (env\<lparr>extract_info := g\<rparr>) vid ti th su src du =
   VideoSummaryResponse env vid ti th su src du"
  by (simp add: VideoSummaryResponse_def rejected_fields_def cong: option.case_cong)

text \<open>The constructor raises nothing but a validation error.\<close>

lemma VideoSummaryResponse_cases:
  "(\<exists>r. VideoSummaryResponse env vid ti th su src du = Inr r)
   \<or> (\<exists>m. VideoSummaryResponse env vid ti th su src du = Inl (Exception m))"
  by (simp add: VideoSummaryResponse_def split: option.splits)

text \<open>The metadata step makes one call and always returns.\<close>

lemma fetch_metadata_eq:
  "fetch_metadata env u vid =
     ([ExtractInfo u],
      Inr (case extract_info env u of
             Inl e \<Rightarrow> (PyStr ''YouTube Video'', PyStr (default_thumbnail vid), PyStr ''Unknown'')
           | Inr info \<Rightarrow> (dict_get (info ''title'') (PyStr ''YouTube Video''),
                          dict_get (info ''thumbnail'') (PyStr (default_thumbnail vid)),
                          dict_get (info ''duration_string'') (PyStr ''Unknown''))))"
  by (cases "extract_info env u")
     (simp_all add: fetch_metadata_def io_defs io_bind_simps io_try_except_simps)

lemma audio_fallback_eq:
  "audio_fallback env u =
     (case download_audio env u of
        Inl e \<Rightarrow> ([DownloadAudio u],
                  Inl (HTTPException 500 (''Audio processing failed: '' @ str_exn env e)))
      | Inr p \<Rightarrow>
          (case transcribe_audio env p of
             Inl e \<Rightarrow> ([DownloadAudio u, TranscribeAudio p],
                       Inl (HTTPException 500 (''Audio processing failed: '' @ str_exn env e)))
           | Inr tt \<Rightarrow>
               (case generate_summary env tt of
                  Inl e \<Rightarrow> ([DownloadAudio u, TranscribeAudio p, GenerateSummary tt],
                            Inl (HTTPException 500 (''Audio processing failed: '' @ str_exn env e)))
                | Inr s \<Rightarrow> ([DownloadAudio u, TranscribeAudio p, GenerateSummary tt],
                            Inr (s, ''audio'')))))"
  by (simp add: audio_fallback_def io_defs io_bind_simps io_try_except_simps split: sum.splits)

lemma audio_fallback_raises:
  "audio_fallback env u = (tr, Inl x) \<Longrightarrow> \<exists>d. x = HTTPException 500 d"
  by (auto simp: audio_fallback_eq split: sum.splits)

text \<open>The runs of the summarizer, by where they end.\<close>

lemma summarize_id_raises:
  "get_video_id env (url req) = Inl e0 \<Longrightarrow>
   summarize_youtube_video env req =
     ([GetVideoId (url req)],
      Inl (case e0 of
             HTTPException status_code detail \<Rightarrow> e0
           | Exception m \<Rightarrow> HTTPException 500 (''Error processing video: '' @ m)))"
  by (cases e0)
     (simp_all add: Let_def summarize_youtube_video_def io_defs io_bind_simps
        io_try_except_simps)

lemma summarize_invalid:
  "get_video_id env (url req) = Inr vo \<Longrightarrow> \<not> truthy vo \<Longrightarrow>
   summarize_youtube_video env req =
     ([GetVideoId (url req)], Inl (HTTPException 400 ''Invalid YouTube URL''))"
  by (simp add: Let_def summarize_youtube_video_def io_defs io_bind_simps io_try_except_simps)

lemma summarize_transcript_raises:
  "get_video_id env (url req) = Inr (Some vid) \<Longrightarrow> vid \<noteq> [] \<Longrightarrow>
   get_transcript env vid = Inl e0 \<Longrightarrow>
   summarize_youtube_video env req =
     ([GetVideoId (url req), ExtractInfo (url req), GetTranscript vid],
      Inl (case e0 of
             HTTPException status_code detail \<Rightarrow> e0
           | Exception m \<Rightarrow> HTTPException 500 (''Error processing video: '' @ m)))"
  by (cases e0; cases "extract_info env (url req)")
     (simp_all add: Let_def summarize_youtube_video_def fetch_metadata_eq io_defs io_bind_simps
        io_try_except_simps)

lemma summarize_transcript_branch:
  "get_video_id env (url req) = Inr (Some vid) \<Longrightarrow> vid \<noteq> [] \<Longrightarrow>
   get_transcript env vid = Inr (Some t) \<Longrightarrow> t \<noteq> [] \<Longrightarrow>
   summarize_youtube_video env req =
     ([GetVideoId (url req), ExtractInfo (url req), GetTranscript vid, SummarizeTranscript t],
      case summarize_transcript env t of
        Inl e \<Rightarrow>
          (case e of
             HTTPException status_code detail \<Rightarrow> Inl e
           | Exception s \<Rightarrow> Inl (HTTPException 500 (''Error processing video: '' @ s)))
      | Inr s \<Rightarrow>
          (case snd (fetch_metadata env (url req) vid) of
             Inr (ti, th, du) \<Rightarrow>
               (case VideoSummaryResponse env vid ti th s ''transcript'' du of
                  Inl e \<Rightarrow> Inl (HTTPException 500 (''Error processing video: '' @ str_exn env e))
                | Inr r \<Rightarrow> Inr r)
           | Inl e \<Rightarrow> Inl e))"
proof -
  assume h: "get_video_id env (url req) = Inr (Some vid)" "vid \<noteq> []"
    "get_transcript env vid = Inr (Some t)" "t \<noteq> []"
  obtain ti th du where m: "fetch_metadata env (url req) vid = ([ExtractInfo (url req)], Inr (ti, th, du))"
    by (cases "extract_info env (url req)") (simp_all add: fetch_metadata_eq)
  show ?thesis
  proof (cases "summarize_transcript env t")
    case (Inl e)
    with h m show ?thesis
      by (cases e)
         (simp_all add: Let_def summarize_youtube_video_def io_defs io_bind_simps
            io_try_except_simps)
  next
    case (Inr s)
    from VideoSummaryResponse_cases [of env vid ti th s "''transcript''" du]
    show ?thesis
      using h m Inr
      by (auto simp: Let_def summarize_youtube_video_def of_result_def io_defs io_bind_simps
            io_try_except_simps)
  qed
qed

lemma summarize_audio_branch:
  "get_video_id env (url req) = Inr (Some vid) \<Longrightarrow> vid \<noteq> [] \<Longrightarrow>
   get_transcript env vid = Inr tro \<Longrightarrow> \<not> truthy tro \<Longrightarrow>
   summarize_youtube_video env req =
     ([GetVideoId (url req), ExtractInfo (url req), GetTranscript vid]
        @ fst (audio_fallback env (url req)),
      case snd (audio_fallback env (url req)) of
        Inl e \<Rightarrow> Inl e
      | Inr (s, src) \<Rightarrow>
          (case snd (fetch_metadata env (url req) vid) of
             Inr (ti, th, du) \<Rightarrow>
               (case VideoSummaryResponse env vid ti th s src du of
                  Inl e \<Rightarrow> Inl (HTTPException 500 (''Error processing video: '' @ str_exn env e))
                | Inr r \<Rightarrow> Inr r)
           | Inl e \<Rightarrow> Inl e))"
proof -
  assume h: "get_video_id env (url req) = Inr (Some vid)" "vid \<noteq> []"
    "get_transcript env vid = Inr tro" "\<not> truthy tro"
  obtain ti th du where m: "fetch_metadata env (url req) vid = ([ExtractInfo (url req)], Inr (ti, th, du))"
    by (cases "extract_info env (url req)") (simp_all add: fetch_metadata_eq)
  obtain tr out where a: "audio_fallback env (url req) = (tr, out)"
    by (cases "audio_fallback env (url req)")
  show ?thesis
  proof (cases out)
    case (Inl x)
    with a obtain d where "x = HTTPException 500 d"
      using audio_fallback_raises by blast
    with h m a Inl show ?thesis
      by (simp add: Let_def summarize_youtube_video_def io_defs io_bind_simps
            io_try_except_simps)
  next
    case (Inr p)
    obtain s src where p: "p = (s, src)" by (cases p)
    from VideoSummaryResponse_cases [of env vid ti th s src du]
    show ?thesis
      using h m a Inr p
      by (auto simp: Let_def summarize_youtube_video_def of_result_def io_defs io_bind_simps
            io_try_except_simps)
  qed
qed

text \<open>
  With a video id, the run is the calls and the payload (a summary and its source, or
  an error), followed by the construction of the response from the metadata.
\<close>

lemma summarize_valid_id:
  assumes "get_video_id env (url req) = Inr (Some vid)" "vid \<noteq> []"
  shows "\<exists>tr pay. \<forall>g.
     summarize_youtube_video (env\<lparr>extract_info := g\<rparr>) req =
       (tr, case pay of
              Inl x \<Rightarrow> Inl x
            | Inr (s, src) \<Rightarrow>
                (case snd (fetch_metadata (env\<lparr>extract_info := g\<rparr>) (url req) vid) of
                   Inr (ti, th, du) \<Rightarrow>
                     (case VideoSummaryResponse env vid ti th s src du of
                        Inl e \<Rightarrow>
                          Inl (HTTPException 500 (''Error processing video: '' @ str_exn env e))
                      | Inr r \<Rightarrow> Inr r)
                 | Inl e \<Rightarrow> Inl e))"
proof (cases "get_transcript env vid")
  case (Inl e0)
  show ?thesis
    by (rule exI [of _ "[GetVideoId (url req), ExtractInfo (url req), GetTranscript vid]"],
        rule exI [of _ "Inl (case e0 of
             HTTPException status_code detail \<Rightarrow> e0
           | Exception m \<Rightarrow> HTTPException 500 (''Error processing video: '' @ m))"])
       (simp add: assms Inl summarize_transcript_raises [of _ req vid e0]
          cong: sum.case_cong prod.case_cong)
next
  case (Inr tro)
  show ?thesis
  proof (cases "truthy tro")
    case True
    then obtain t where t: "tro = Some t" "t \<noteq> []" by (cases tro) simp_all
    show ?thesis
      by (rule exI [of _ "[GetVideoId (url req), ExtractInfo (url req), GetTranscript vid,
                           SummarizeTranscript t]"],
          rule exI [of _ "case summarize_transcript env t of
             Inl e \<Rightarrow>
               (case e of
                  HTTPException status_code detail \<Rightarrow> Inl e
                | Exception m \<Rightarrow> Inl (HTTPException 500 (''Error processing video: '' @ m)))
           | Inr s \<Rightarrow> Inr (s, ''transcript'')"])
         (simp add: assms Inr t summarize_transcript_branch [of _ req vid t]
            split: sum.splits exn.splits prod.splits)
  next
    case False
    show ?thesis
      by (rule exI [of _ "[GetVideoId (url req), ExtractInfo (url req), GetTranscript vid]
                           @ fst (audio_fallback env (url req))"],
          rule exI [of _ "snd (audio_fallback env (url req))"])
         (simp add: assms Inr False summarize_audio_branch [of _ req vid tro]
            cong: sum.case_cong prod.case_cong)
  qed
qed

lemma summarize_stub:
  "summarize_youtube_video stub_env stub_request =
     ([GetVideoId ''https://youtu.be/abc123'', ExtractInfo ''https://youtu.be/abc123'',
       GetTranscript ''abc123'', SummarizeTranscript ''hello''],
      Inr \<lparr>video_id = ''abc123'', title = ''A lecture'',
           thumbnail = ''https://img.youtube.com/vi/abc123/maxresdefault.jpg'',
           summary = ''summary of hello'', source = ''transcript'',
           duration = Some ''12:30''\<rparr>)"
proof -
  have "get_video_id stub_env (url stub_request) = Inr (Some ''abc123'')"
    "get_transcript stub_env ''abc123'' = Inr (Some ''hello'')"
    by (simp_all add: stub_env_def stub_request_def)
  then have "summarize_youtube_video stub_env stub_request =
     ([GetVideoId (url stub_request), ExtractInfo (url stub_request), GetTranscript ''abc123'',
       SummarizeTranscript ''hello''],
      case summarize_transcript stub_env ''hello'' of
        Inl e \<Rightarrow>
          (case e of
             HTTPException status_code detail \<Rightarrow> Inl e
           | Exception s \<Rightarrow> Inl (HTTPException 500 (''Error processing video: '' @ s)))
      | Inr s \<Rightarrow>
          (case snd (fetch_metadata stub_env (url stub_request) ''abc123'') of
             Inr (ti, th, du) \<Rightarrow>
               (case VideoSummaryResponse stub_env ''abc123'' ti th s ''transcript'' du of
                  Inl e \<Rightarrow>
                    Inl (HTTPException 500 (''Error processing video: '' @ str_exn stub_env e))
                | Inr r \<Rightarrow> Inr r)
           | Inl e \<Rightarrow> Inl e))"
    by (intro summarize_transcript_branch) simp_all
  then show ?thesis
    by (simp add: fetch_metadata_eq VideoSummaryResponse_def stub_env_def stub_info_def
          stub_request_def dict_get_def default_thumbnail_def)
qed

text \<open>
  C2, as stated, fails at two inputs, each with a URL that has a video id and a
  transcript that is available. At the first the summarizer of the transcript raises.
  At the second the summarizer returns, but the info dictionary holds the key
  \<open>title\<close> with the value \<open>None\<close>, which \<open>info.get\<close> hands on and the response model
  rejects. Both requests end with an \<open>HTTPException\<close> of status 500 and no response
  that has a source.
\<close>

theorem transcript_available_counterexample:
  "get_video_id summarizer_down_env (url stub_request) = Inr (Some ''abc123'')
   \<and> get_transcript summarizer_down_env ''abc123'' = Inr (Some ''hello'')
   \<and> summarize_youtube_video summarizer_down_env stub_request =
       ([GetVideoId ''https://youtu.be/abc123'', ExtractInfo ''https://youtu.be/abc123'',
         GetTranscript ''abc123'', SummarizeTranscript ''hello''],
        Inl (HTTPException 500 ''Error processing video: model unavailable''))
   \<and> get_video_id null_title_env (url stub_request) = Inr (Some ''abc123'')
   \<and> get_transcript null_title_env ''abc123'' = Inr (Some ''hello'')
   \<and> summarize_transcript null_title_env ''hello'' = Inr (PyStr ''summary of hello'')
   \<and> summarize_youtube_video null_title_env stub_request =
       ([GetVideoId ''https://youtu.be/abc123'', ExtractInfo ''https://youtu.be/abc123'',
         GetTranscript ''abc123'', SummarizeTranscript ''hello''],
        Inl (HTTPException 500
               ''Error processing video: validation error for VideoSummaryResponse''))"
proof -
  have g: "get_video_id summarizer_down_env (url stub_request) = Inr (Some ''abc123'')"
    and t: "get_transcript summarizer_down_env ''abc123'' = Inr (Some ''hello'')"
    by (simp_all add: summarizer_down_env_def stub_env_def stub_request_def)
  have a: "summarize_youtube_video summarizer_down_env stub_request =
       ([GetVideoId ''https://youtu.be/abc123'', ExtractInfo ''https://youtu.be/abc123'',
         GetTranscript ''abc123'', SummarizeTranscript ''hello''],
        Inl (HTTPException 500 ''Error processing video: model unavailable''))"
    using g t
    by (simp add: summarize_transcript_branch
                    [of summarizer_down_env stub_request "''abc123''" "''hello''"])
       (simp add: summarizer_down_env_def stub_env_def stub_request_def)
  have g': "get_video_id null_title_env (url stub_request) = Inr (Some ''abc123'')"
    and t': "get_transcript null_title_env ''abc123'' = Inr (Some ''hello'')"
    and s': "summarize_transcript null_title_env ''hello'' = Inr (PyStr ''summary of hello'')"
    by (simp_all add: null_title_env_def stub_env_def stub_request_def)
  have b: "summarize_youtube_video null_title_env stub_request =
       ([GetVideoId ''https://youtu.be/abc123'', ExtractInfo ''https://youtu.be/abc123'',
         GetTranscript ''abc123'', SummarizeTranscript ''hello''],
        Inl (HTTPException 500
               ''Error processing video: validation error for VideoSummaryResponse''))"
    using g' t'
    by (simp add: summarize_transcript_branch
                    [of null_title_env stub_request "''abc123''" "''hello''"])
       (simp add: fetch_metadata_eq VideoSummaryResponse_def null_title_env_def stub_env_def
          stub_request_def dict_get_def)
  from g t a g' t' s' b show ?thesis by (intro conjI)
qed

text \<open>
  C2, amended: when the URL has a video id, a transcript is available, its
  summarization returns a string, and the metadata step gives strings for title and
  thumbnail and a string or \<open>None\<close> for the duration, the response has source
  "transcript"; when the URL has a video id, no transcript is available, download,
  transcription and summarization of the audio return (the last a string), and the
  metadata step gives such values, the response has source "audio"; when no video id
  comes out of the URL, the request fails with status 400 and the only call made is the
  one that parses the URL.
\<close>

theorem summarize_youtube_source:
  "(get_video_id env (url req) = Inr (Some vid) \<and> vid \<noteq> [] \<and>
    get_transcript env vid = Inr (Some t) \<and> t \<noteq> [] \<and>
    summarize_transcript env t = Inr (PyStr s) \<and>
    snd (fetch_metadata env (url req) vid) = Inr (PyStr ti, PyStr th, du) \<and>
    (du = PyNone \<or> du = PyStr d) \<longrightarrow>
      (\<exists>r. summarize_youtube_video env req =
              ([GetVideoId (url req), ExtractInfo (url req), GetTranscript vid,
                SummarizeTranscript t], Inr r)
           \<and> source r = ''transcript'' \<and> summary r = s \<and> video_id r = vid
           \<and> title r = ti \<and> thumbnail r = th))
   \<and> (get_video_id env (url req) = Inr (Some vid) \<and> vid \<noteq> [] \<and>
       get_transcript env vid = Inr tro \<and> \<not> truthy tro \<and>
       download_audio env (url req) = Inr p \<and> transcribe_audio env p = Inr tt \<and>
       generate_summary env tt = Inr (PyStr s') \<and>
       snd (fetch_metadata env (url req) vid) = Inr (PyStr ti, PyStr th, du) \<and>
       (du = PyNone \<or> du = PyStr d) \<longrightarrow>
      (\<exists>r. summarize_youtube_video env req =
              ([GetVideoId (url req), ExtractInfo (url req), GetTranscript vid,
                DownloadAudio (url req), TranscribeAudio p, GenerateSummary tt], Inr r)
           \<and> source r = ''audio'' \<and> summary r = s' \<and> video_id r = vid
           \<and> title r = ti \<and> thumbnail r = th))
   \<and> (get_video_id env (url req) = Inr vo \<and> \<not> truthy vo \<longrightarrow>
        summarize_youtube_video env req =
          ([GetVideoId (url req)], Inl (HTTPException 400 ''Invalid YouTube URL''))
        \<and> response_status (snd (summarize_youtube_video env req)) = 400)"
proof (intro conjI impI)
  assume h: "get_video_id env (url req) = Inr (Some vid) \<and> vid \<noteq> [] \<and>
    get_transcript env vid = Inr (Some t) \<and> t \<noteq> [] \<and>
    summarize_transcript env t = Inr (PyStr s) \<and>
    snd (fetch_metadata env (url req) vid) = Inr (PyStr ti, PyStr th, du) \<and>
    (du = PyNone \<or> du = PyStr d)"
  then have "summarize_youtube_video env req =
     ([GetVideoId (url req), ExtractInfo (url req), GetTranscript vid, SummarizeTranscript t],
      case VideoSummaryResponse env vid (PyStr ti) (PyStr th) (PyStr s) ''transcript'' du of
        Inl e \<Rightarrow> Inl (HTTPException 500 (''Error processing video: '' @ str_exn env e))
      | Inr r \<Rightarrow> Inr r)"
    by (simp add: summarize_transcript_branch [of env req vid t])
  with h show "\<exists>r. summarize_youtube_video env req =
              ([GetVideoId (url req), ExtractInfo (url req), GetTranscript vid,
                SummarizeTranscript t], Inr r)
           \<and> source r = ''transcript'' \<and> summary r = s \<and> video_id r = vid
           \<and> title r = ti \<and> thumbnail r = th"
    by (auto simp: VideoSummaryResponse_def)
next
  assume h: "get_video_id env (url req) = Inr (Some vid) \<and> vid \<noteq> [] \<and>
       get_transcript env vid = Inr tro \<and> \<not> truthy tro \<and>
       download_audio env (url req) = Inr p \<and> transcribe_audio env p = Inr tt \<and>
       generate_summary env tt = Inr (PyStr s') \<and>
       snd (fetch_metadata env (url req) vid) = Inr (PyStr ti, PyStr th, du) \<and>
       (du = PyNone \<or> du = PyStr d)"
  then have a: "audio_fallback env (url req) =
      ([DownloadAudio (url req), TranscribeAudio p, GenerateSummary tt],
       Inr (PyStr s', ''audio''))"
    by (simp add: audio_fallback_eq)
  with h have "summarize_youtube_video env req =
     ([GetVideoId (url req), ExtractInfo (url req), GetTranscript vid,
       DownloadAudio (url req), TranscribeAudio p, GenerateSummary tt],
      case VideoSummaryResponse env vid (PyStr ti) (PyStr th) (PyStr s') ''audio'' du of
        Inl e \<Rightarrow> Inl (HTTPException 500 (''Error processing video: '' @ str_exn env e))
      | Inr r \<Rightarrow> Inr r)"
    by (simp add: summarize_audio_branch [of env req vid tro])
  with h show "\<exists>r. summarize_youtube_video env req =
              ([GetVideoId (url req), ExtractInfo (url req), GetTranscript vid,
                DownloadAudio (url req), TranscribeAudio p, GenerateSummary tt], Inr r)
           \<and> source r = ''audio'' \<and> summary r = s' \<and> video_id r = vid
           \<and> title r = ti \<and> thumbnail r = th"
    by (auto simp: VideoSummaryResponse_def)
next
  assume "get_video_id env (url req) = Inr vo \<and> \<not> truthy vo"
  then show "summarize_youtube_video env req =
          ([GetVideoId (url req)], Inl (HTTPException 400 ''Invalid YouTube URL''))"
    by (simp add: summarize_invalid)
  then show "response_status (snd (summarize_youtube_video env req)) = 400"
    by simp
qed

theorem summarize_youtube_source_witness:
  "(\<exists>r. summarize_youtube_video stub_env stub_request =
          ([GetVideoId ''https://youtu.be/abc123'', ExtractInfo ''https://youtu.be/abc123'',
            GetTranscript ''abc123'', SummarizeTranscript ''hello''], Inr r)
        \<and> source r = ''transcript'' \<and> summary r = ''summary of hello''
        \<and> video_id r = ''abc123'' \<and> title r = ''A lecture''
        \<and> thumbnail r = ''https://img.youtube.com/vi/abc123/maxresdefault.jpg'')
   \<and> (\<exists>r. summarize_youtube_video
            (audio_env (Inr ''audio.mp3'') (Inr ''spoken words'') (Inr (PyStr ''a short summary'')))
            stub_request =
          ([GetVideoId ''https://youtu.be/abc123'', ExtractInfo ''https://youtu.be/abc123'',
            GetTranscript ''abc123'', DownloadAudio ''https://youtu.be/abc123'',
            TranscribeAudio ''audio.mp3'', GenerateSummary ''spoken words''], Inr r)
        \<and> source r = ''audio'' \<and> summary r = ''a short summary'' \<and> video_id r = ''abc123''
        \<and> title r = ''A lecture''
        \<and> thumbnail r = ''https://img.youtube.com/vi/abc123/maxresdefault.jpg'')
   \<and> summarize_youtube_video stub_env \<lparr>url = ''not a video''\<rparr> =
        ([GetVideoId ''not a video''], Inl (HTTPException 400 ''Invalid YouTube URL''))
   \<and> response_status (snd (summarize_youtube_video stub_env \<lparr>url = ''not a video''\<rparr>)) = 400"
proof -
  let ?aenv = "audio_env (Inr ''audio.mp3'') (Inr ''spoken words'') (Inr (PyStr ''a short summary''))"
  let ?th = "''https://img.youtube.com/vi/abc123/maxresdefault.jpg''"
  have h1: "get_video_id stub_env (url stub_request) = Inr (Some ''abc123'') \<and> ''abc123'' \<noteq> [] \<and>
    get_transcript stub_env ''abc123'' = Inr (Some ''hello'') \<and> ''hello'' \<noteq> [] \<and>
    summarize_transcript stub_env ''hello'' = Inr (PyStr ''summary of hello'') \<and>
    snd (fetch_metadata stub_env (url stub_request) ''abc123'')
      = Inr (PyStr ''A lecture'', PyStr ?th, PyStr ''12:30'') \<and>
    (PyStr ''12:30'' = PyNone \<or> PyStr ''12:30'' = PyStr ''12:30'')"
    by (simp add: stub_env_def stub_info_def stub_request_def fetch_metadata_eq dict_get_def
          default_thumbnail_def)
  have h2: "get_video_id ?aenv (url stub_request) = Inr (Some ''abc123'') \<and> ''abc123'' \<noteq> [] \<and>
       get_transcript ?aenv ''abc123'' = Inr None \<and> \<not> truthy None \<and>
       download_audio ?aenv (url stub_request) = Inr ''audio.mp3'' \<and>
       transcribe_audio ?aenv ''audio.mp3'' = Inr ''spoken words'' \<and>
       generate_summary ?aenv ''spoken words'' = Inr (PyStr ''a short summary'') \<and>
       snd (fetch_metadata ?aenv (url stub_request) ''abc123'')
         = Inr (PyStr ''A lecture'', PyStr ?th, PyStr ''12:30'') \<and>
       (PyStr ''12:30'' = PyNone \<or> PyStr ''12:30'' = PyStr ''12:30'')"
    by (simp add: audio_env_def stub_env_def stub_info_def stub_request_def fetch_metadata_eq
          dict_get_def default_thumbnail_def)
  have h3: "get_video_id stub_env (url \<lparr>url = ''not a video''\<rparr>) = Inr None \<and> \<not> truthy None"
    by (simp add: stub_env_def)
  have u: "url stub_request = ''https://youtu.be/abc123''"
    by (simp add: stub_request_def)
  from summarize_youtube_source
         [of stub_env stub_request "''abc123''" "''hello''" "''summary of hello''"
             "''A lecture''" ?th "PyStr ''12:30''" "''12:30''",
          THEN conjunct1] h1
  have c1: "\<exists>r. summarize_youtube_video stub_env stub_request =
          ([GetVideoId ''https://youtu.be/abc123'', ExtractInfo ''https://youtu.be/abc123'',
            GetTranscript ''abc123'', SummarizeTranscript ''hello''], Inr r)
        \<and> source r = ''transcript'' \<and> summary r = ''summary of hello''
        \<and> video_id r = ''abc123'' \<and> title r = ''A lecture'' \<and> thumbnail r = ?th"
    by (simp add: u)
  from summarize_youtube_source
         [of ?aenv stub_request "''abc123''" _ _ "''A lecture''" ?th "PyStr ''12:30''" "''12:30''"
             None "''audio.mp3''" "''spoken words''" "''a short summary''",
          THEN conjunct2, THEN conjunct1] h2
  have c2: "\<exists>r. summarize_youtube_video ?aenv stub_request =
          ([GetVideoId ''https://youtu.be/abc123'', ExtractInfo ''https://youtu.be/abc123'',
            GetTranscript ''abc123'', DownloadAudio ''https://youtu.be/abc123'',
            TranscribeAudio ''audio.mp3'', GenerateSummary ''spoken words''], Inr r)
        \<and> source r = ''audio'' \<and> summary r = ''a short summary'' \<and> video_id r = ''abc123''
        \<and> title r = ''A lecture'' \<and> thumbnail r = ?th"
    by (simp add: u)
  from summarize_youtube_source
         [of stub_env "\<lparr>url = ''not a video''\<rparr>" _ _ _ _ _ _ _ _ _ _ _ None,
          THEN conjunct2, THEN conjunct2] h3
  have c3: "summarize_youtube_video stub_env \<lparr>url = ''not a video''\<rparr> =
        ([GetVideoId ''not a video''], Inl (HTTPException 400 ''Invalid YouTube URL''))
   \<and> response_status (snd (summarize_youtube_video stub_env \<lparr>url = ''not a video''\<rparr>)) = 400"
    by simp
  from c1 c2 c3 show ?thesis by (intro conjI) (erule conjunct1 conjunct2 asm_rl)+
qed

text \<open>
  C4: let the info extractor raise. Then a response the summarizer returns has the
  title "YouTube Video", the thumbnail "https://img.youtube.com/vi/", the video id,
  "/maxresdefault.jpg", and the duration "Unknown". A summarization that returns a
  response under any other behaviour \<open>g\<close> of the info extractor returns, with the
  same calls, the same response but for these three fields. And when the summarizer
  ends in an error, it ends in an error of the same status after the same calls under
  any \<open>g\<close>: the failure of the metadata is never what fails the request.
\<close>

theorem metadata_failure_absorbed:
  "extract_info env (url req) = Inl e \<longrightarrow>
     (summarize_youtube_video (env\<lparr>extract_info := g\<rparr>) req = (tr, Inr r') \<longrightarrow>
        summarize_youtube_video env req =
          (tr, Inr (r'\<lparr>title := ''YouTube Video'',
                       thumbnail := ''https://img.youtube.com/vi/'' @ video_id r'
                                      @ ''/maxresdefault.jpg'',
                       duration := Some ''Unknown''\<rparr>)))
     \<and> (summarize_youtube_video env req = (tr, Inr r) \<longrightarrow>
          title r = ''YouTube Video''
          \<and> thumbnail r = ''https://img.youtube.com/vi/'' @ video_id r @ ''/maxresdefault.jpg''
          \<and> duration r = Some ''Unknown'')
     \<and> (summarize_youtube_video env req = (tr, Inl x) \<longrightarrow>
          fst (summarize_youtube_video (env\<lparr>extract_info := g\<rparr>) req) = tr
          \<and> response_status (snd (summarize_youtube_video (env\<lparr>extract_info := g\<rparr>) req))
              = response_status (snd (summarize_youtube_video env req)))"
proof
  assume h: "extract_info env (url req) = Inl e"
  let ?S = "\<lambda>E. summarize_youtube_video E req"
  let ?env' = "env\<lparr>extract_info := g\<rparr>"
  let ?concl = "(?S ?env' = (tr, Inr r') \<longrightarrow>
        ?S env =
          (tr, Inr (r'\<lparr>title := ''YouTube Video'',
                       thumbnail := ''https://img.youtube.com/vi/'' @ video_id r'
                                      @ ''/maxresdefault.jpg'',
                       duration := Some ''Unknown''\<rparr>)))
     \<and> (?S env = (tr, Inr r) \<longrightarrow>
          title r = ''YouTube Video''
          \<and> thumbnail r = ''https://img.youtube.com/vi/'' @ video_id r @ ''/maxresdefault.jpg''
          \<and> duration r = Some ''Unknown'')
     \<and> (?S env = (tr, Inl x) \<longrightarrow>
          fst (?S ?env') = tr
          \<and> response_status (snd (?S ?env')) = response_status (snd (?S env)))"
  show ?concl
  proof (cases "get_video_id env (url req)")
    case (Inl e0)
    then show ?thesis
      by (simp add: summarize_id_raises [of _ req e0])
  next
    case (Inr vo)
    show ?thesis
    proof (cases "truthy vo")
      case False
      with Inr show ?thesis
        by (simp add: summarize_invalid [of _ req vo])
    next
      case True
      then obtain vid where vo: "vo = Some vid" and vid: "vid \<noteq> []"
        by (cases vo) simp_all
      from summarize_valid_id [of env req vid] Inr vo vid
      obtain tr0 pay where run: "\<And>g. ?S (env\<lparr>extract_info := g\<rparr>) =
       (tr0, case pay of
              Inl x \<Rightarrow> Inl x
            | Inr (s, src) \<Rightarrow>
                (case snd (fetch_metadata (env\<lparr>extract_info := g\<rparr>) (url req) vid) of
                   Inr (ti, th, du) \<Rightarrow>
                     (case VideoSummaryResponse env vid ti th s src du of
                        Inl e \<Rightarrow>
                          Inl (HTTPException 500 (''Error processing video: '' @ str_exn env e))
                      | Inr r \<Rightarrow> Inr r)
                 | Inl e \<Rightarrow> Inl e))"
        by blast
      have fail: "snd (fetch_metadata env (url req) vid) =
          Inr (PyStr ''YouTube Video'', PyStr (default_thumbnail vid), PyStr ''Unknown'')"
        by (simp add: fetch_metadata_eq h)
      from run [of "extract_info env"] have run_env: "?S env =
       (tr0, case pay of
              Inl x \<Rightarrow> Inl x
            | Inr (s, src) \<Rightarrow>
                (case VideoSummaryResponse env vid (PyStr ''YouTube Video'')
                        (PyStr (default_thumbnail vid)) s src (PyStr ''Unknown'') of
                   Inl e \<Rightarrow>
                     Inl (HTTPException 500 (''Error processing video: '' @ str_exn env e))
                 | Inr r \<Rightarrow> Inr r))"
        by (simp add: fail cong: sum.case_cong prod.case_cong)
      show ?thesis
      proof (cases pay)
        case (Inl x0)
        with run [of g] run_env show ?thesis by simp
      next
        case (Inr p)
        obtain s src where p: "p = (s, src)" by (cases p)
        obtain ti th du where m: "snd (fetch_metadata ?env' (url req) vid) = Inr (ti, th, du)"
          by (cases "g (url req)") (simp_all add: fetch_metadata_eq)
        from run [of g] Inr p m have run_g: "?S ?env' =
          (tr0, case VideoSummaryResponse env vid ti th s src du of
                  Inl e \<Rightarrow>
                    Inl (HTTPException 500 (''Error processing video: '' @ str_exn env e))
                | Inr r \<Rightarrow> Inr r)"
          by simp
        from run_env Inr p have run_f: "?S env =
          (tr0, case VideoSummaryResponse env vid (PyStr ''YouTube Video'')
                        (PyStr (default_thumbnail vid)) s src (PyStr ''Unknown'') of
                  Inl e \<Rightarrow>
                    Inl (HTTPException 500 (''Error processing video: '' @ str_exn env e))
                | Inr r \<Rightarrow> Inr r)"
          by simp
        show ?thesis
        proof (cases "validate_str env s")
          case None
          then show ?thesis
            by (auto simp: run_g run_f VideoSummaryResponse_def split: option.splits)
        next
          case (Some su)
          then show ?thesis
            by (auto simp: run_g run_f VideoSummaryResponse_def default_thumbnail_def
                  split: option.splits)
        qed
      qed
    qed
  qed
qed

theorem metadata_failure_absorbed_witness:
  "extract_info no_metadata_env (url stub_request) = Inl (Exception ''network down'')
   \<and> summarize_youtube_video no_metadata_env stub_request =
       ([GetVideoId ''https://youtu.be/abc123'', ExtractInfo ''https://youtu.be/abc123'',
         GetTranscript ''abc123'', SummarizeTranscript ''hello''],
        Inr \<lparr>video_id = ''abc123'', title = ''YouTube Video'',
             thumbnail = ''https://img.youtube.com/vi/abc123/maxresdefault.jpg'',
             summary = ''summary of hello'', source = ''transcript'',
             duration = Some ''Unknown''\<rparr>)
   \<and> summarize_youtube_video no_metadata_env \<lparr>url = ''not a video''\<rparr> =
       ([GetVideoId ''not a video''], Inl (HTTPException 400 ''Invalid YouTube URL''))
   \<and> fst (summarize_youtube_video stub_env \<lparr>url = ''not a video''\<rparr>)
       = [GetVideoId ''not a video'']
   \<and> response_status (snd (summarize_youtube_video stub_env \<lparr>url = ''not a video''\<rparr>)) = 400"
proof -
  let ?tr = "[GetVideoId ''https://youtu.be/abc123'', ExtractInfo ''https://youtu.be/abc123'',
         GetTranscript ''abc123'', SummarizeTranscript ''hello'']"
  let ?r' = "\<lparr>video_id = ''abc123'', title = ''A lecture'',
           thumbnail = ''https://img.youtube.com/vi/abc123/maxresdefault.jpg'',
           summary = ''summary of hello'', source = ''transcript'',
           duration = Some ''12:30''\<rparr>"
  let ?r = "\<lparr>video_id = ''abc123'', title = ''YouTube Video'',
             thumbnail = ''https://img.youtube.com/vi/abc123/maxresdefault.jpg'',
             summary = ''summary of hello'', source = ''transcript'',
             duration = Some ''Unknown''\<rparr>"
  let ?bad = "\<lparr>url = ''not a video''\<rparr>"
  have h: "extract_info no_metadata_env (url stub_request) = Inl (Exception ''network down'')"
    by (simp add: no_metadata_env_def)
  have h': "extract_info no_metadata_env (url ?bad) = Inl (Exception ''network down'')"
    by (simp add: no_metadata_env_def)
  have restored: "no_metadata_env\<lparr>extract_info := extract_info stub_env\<rparr> = stub_env"
    by (simp add: no_metadata_env_def)
  have g_run: "summarize_youtube_video (no_metadata_env\<lparr>extract_info := extract_info stub_env\<rparr>)
                 stub_request = (?tr, Inr ?r')"
    by (simp only: restored summarize_stub)
  note t1 = metadata_failure_absorbed
              [of no_metadata_env stub_request "Exception ''network down''"
                  "extract_info stub_env" ?tr ?r' ?r, rule_format, OF h]
  from t1 [THEN conjunct1, rule_format, OF g_run]
  have b: "summarize_youtube_video no_metadata_env stub_request = (?tr, Inr ?r)"
    by simp
  from t1 [THEN conjunct2, THEN conjunct1, rule_format, OF b]
  have fields: "title ?r = ''YouTube Video''
     \<and> thumbnail ?r = ''https://img.youtube.com/vi/'' @ video_id ?r @ ''/maxresdefault.jpg''
     \<and> duration ?r = Some ''Unknown''" .
  have bad: "summarize_youtube_video no_metadata_env ?bad =
       ([GetVideoId ''not a video''], Inl (HTTPException 400 ''Invalid YouTube URL''))"
  proof -
    have "get_video_id no_metadata_env (url ?bad) = Inr None"
      by (simp add: no_metadata_env_def stub_env_def)
    from summarize_invalid [OF this] show ?thesis by simp
  qed
  from metadata_failure_absorbed
         [of no_metadata_env ?bad "Exception ''network down''" "extract_info stub_env"
             "[GetVideoId ''not a video'']" _ _ "HTTPException 400 ''Invalid YouTube URL''",
          rule_format, OF h', THEN conjunct2, THEN conjunct2, rule_format, OF bad]
  have c: "fst (summarize_youtube_video stub_env ?bad) = [GetVideoId ''not a video'']
     \<and> response_status (snd (summarize_youtube_video stub_env ?bad)) = 400"
    by (simp add: restored bad)
  from h b fields bad c show ?thesis by simp
qed

text \<open>
  C6: when the URL has a video id and no transcript is available, an exception of the
  download, of the transcription or of the summarization of the audio ends the request
  with an \<open>HTTPException\<close> of status 500 whose detail is "Audio processing failed: "
  followed by \<open>str\<close> of the exception; no later step of the branch is called.
\<close>

theorem audio_fallback_failure_is_500:
  "get_video_id env (url req) = Inr (Some vid) \<and> vid \<noteq> [] \<and>
   get_transcript env vid = Inr tro \<and> \<not> truthy tro \<longrightarrow>
     (download_audio env (url req) = Inl e \<longrightarrow>
        summarize_youtube_video env req =
          ([GetVideoId (url req), ExtractInfo (url req), GetTranscript vid,
            DownloadAudio (url req)],
           Inl (HTTPException 500 (''Audio processing failed: '' @ str_exn env e))))
     \<and> (download_audio env (url req) = Inr p \<and> transcribe_audio env p = Inl e \<longrightarrow>
        summarize_youtube_video env req =
          ([GetVideoId (url req), ExtractInfo (url req), GetTranscript vid,
            DownloadAudio (url req), TranscribeAudio p],
           Inl (HTTPException 500 (''Audio processing failed: '' @ str_exn env e))))
     \<and> (download_audio env (url req) = Inr p \<and> transcribe_audio env p = Inr tt \<and>
         generate_summary env tt = Inl e \<longrightarrow>
        summarize_youtube_video env req =
          ([GetVideoId (url req), ExtractInfo (url req), GetTranscript vid,
            DownloadAudio (url req), TranscribeAudio p, GenerateSummary tt],
           Inl (HTTPException 500 (''Audio processing failed: '' @ str_exn env e))))"
proof
  assume "get_video_id env (url req) = Inr (Some vid) \<and> vid \<noteq> [] \<and>
   get_transcript env vid = Inr tro \<and> \<not> truthy tro"
  then have eq: "summarize_youtube_video env req =
     ([GetVideoId (url req), ExtractInfo (url req), GetTranscript vid]
        @ fst (audio_fallback env (url req)),
      case snd (audio_fallback env (url req)) of
        Inl e \<Rightarrow> Inl e
      | Inr (s, src) \<Rightarrow>
          (case snd (fetch_metadata env (url req) vid) of
             Inr (ti, th, du) \<Rightarrow>
               (case VideoSummaryResponse env vid ti th s src du of
                  Inl e \<Rightarrow> Inl (HTTPException 500 (''Error processing video: '' @ str_exn env e))
                | Inr r \<Rightarrow> Inr r)
           | Inl e \<Rightarrow> Inl e))"
    by (intro summarize_audio_branch [of env req vid tro]) simp_all
  show "(download_audio env (url req) = Inl e \<longrightarrow>
        summarize_youtube_video env req =
          ([GetVideoId (url req), ExtractInfo (url req), GetTranscript vid,
            DownloadAudio (url req)],
           Inl (HTTPException 500 (''Audio processing failed: '' @ str_exn env e))))
     \<and> (download_audio env (url req) = Inr p \<and> transcribe_audio env p = Inl e \<longrightarrow>
        summarize_youtube_video env req =
          ([GetVideoId (url req), ExtractInfo (url req), GetTranscript vid,
            DownloadAudio (url req), TranscribeAudio p],
           Inl (HTTPException 500 (''Audio processing failed: '' @ str_exn env e))))
     \<and> (download_audio env (url req) = Inr p \<and> transcribe_audio env p = Inr tt \<and>
         generate_summary env tt = Inl e \<longrightarrow>
        summarize_youtube_video env req =
          ([GetVideoId (url req), ExtractInfo (url req), GetTranscript vid,
            DownloadAudio (url req), TranscribeAudio p, GenerateSummary tt],
           Inl (HTTPException 500 (''Audio processing failed: '' @ str_exn env e))))"
    by (simp add: eq audio_fallback_eq)
qed

theorem audio_fallback_failure_is_500_witness:
  "summarize_youtube_video
     (audio_env (Inl (Exception ''no network'')) (Inr ''spoken words'')
        (Inr (PyStr ''a short summary'')))
     stub_request =
     ([GetVideoId ''https://youtu.be/abc123'', ExtractInfo ''https://youtu.be/abc123'',
       GetTranscript ''abc123'', DownloadAudio ''https://youtu.be/abc123''],
      Inl (HTTPException 500 ''Audio processing failed: no network''))
   \<and> summarize_youtube_video
     (audio_env (Inr ''audio.mp3'') (Inl (Exception ''bad codec''))
        (Inr (PyStr ''a short summary'')))
     stub_request =
     ([GetVideoId ''https://youtu.be/abc123'', ExtractInfo ''https://youtu.be/abc123'',
       GetTranscript ''abc123'', DownloadAudio ''https://youtu.be/abc123'',
       TranscribeAudio ''audio.mp3''],
      Inl (HTTPException 500 ''Audio processing failed: bad codec''))
   \<and> summarize_youtube_video
     (audio_env (Inr ''audio.mp3'') (Inr ''spoken words'') (Inl (Exception ''model unavailable'')))
     stub_request =
     ([GetVideoId ''https://youtu.be/abc123'', ExtractInfo ''https://youtu.be/abc123'',
       GetTranscript ''abc123'', DownloadAudio ''https://youtu.be/abc123'',
       TranscribeAudio ''audio.mp3'', GenerateSummary ''spoken words''],
      Inl (HTTPException 500 ''Audio processing failed: model unavailable''))"
proof -
  let ?e1 = "audio_env (Inl (Exception ''no network'')) (Inr ''spoken words'')
               (Inr (PyStr ''a short summary''))"
  let ?e2 = "audio_env (Inr ''audio.mp3'') (Inl (Exception ''bad codec''))
               (Inr (PyStr ''a short summary''))"
  let ?e3 = "audio_env (Inr ''audio.mp3'') (Inr ''spoken words'')
               (Inl (Exception ''model unavailable''))"
  have u: "url stub_request = ''https://youtu.be/abc123''"
    by (simp add: stub_request_def)
  have pre: "get_video_id (audio_env d t g) (url stub_request) = Inr (Some ''abc123'') \<and>
       ''abc123'' \<noteq> [] \<and> get_transcript (audio_env d t g) ''abc123'' = Inr None \<and>
       \<not> truthy None" for d t g
    by (simp add: audio_env_def stub_env_def stub_request_def)
  have h1: "download_audio ?e1 (url stub_request) = Inl (Exception ''no network'')"
    by (simp add: audio_env_def)
  have h2: "download_audio ?e2 (url stub_request) = Inr ''audio.mp3'' \<and>
            transcribe_audio ?e2 ''audio.mp3'' = Inl (Exception ''bad codec'')"
    by (simp add: audio_env_def)
  have h3: "download_audio ?e3 (url stub_request) = Inr ''audio.mp3'' \<and>
            transcribe_audio ?e3 ''audio.mp3'' = Inr ''spoken words'' \<and>
            generate_summary ?e3 ''spoken words'' = Inl (Exception ''model unavailable'')"
    by (simp add: audio_env_def)
  from audio_fallback_failure_is_500
         [of ?e1 stub_request "''abc123''" None "Exception ''no network''", rule_format, OF pre,
          THEN conjunct1] h1
  have c1: "summarize_youtube_video ?e1 stub_request =
     ([GetVideoId ''https://youtu.be/abc123'', ExtractInfo ''https://youtu.be/abc123'',
       GetTranscript ''abc123'', DownloadAudio ''https://youtu.be/abc123''],
      Inl (HTTPException 500 ''Audio processing failed: no network''))"
    by (simp add: u)
  from audio_fallback_failure_is_500
         [of ?e2 stub_request "''abc123''" None "Exception ''bad codec''" "''audio.mp3''",
          rule_format, OF pre, THEN conjunct2, THEN conjunct1] h2
  have c2: "summarize_youtube_video ?e2 stub_request =
     ([GetVideoId ''https://youtu.be/abc123'', ExtractInfo ''https://youtu.be/abc123'',
       GetTranscript ''abc123'', DownloadAudio ''https://youtu.be/abc123'',
       TranscribeAudio ''audio.mp3''],
      Inl (HTTPException 500 ''Audio processing failed: bad codec''))"
    by (simp add: u)
  from audio_fallback_failure_is_500
         [of ?e3 stub_request "''abc123''" None "Exception ''model unavailable''" "''audio.mp3''"
             "''spoken words''",
          rule_format, OF pre, THEN conjunct2, THEN conjunct2] h3
  have c3: "summarize_youtube_video ?e3 stub_request =
     ([GetVideoId ''https://youtu.be/abc123'', ExtractInfo ''https://youtu.be/abc123'',
       GetTranscript ''abc123'', DownloadAudio ''https://youtu.be/abc123'',
       TranscribeAudio ''audio.mp3'', GenerateSummary ''spoken words''],
      Inl (HTTPException 500 ''Audio processing failed: model unavailable''))"
    by (simp add: u)
  from c1 c2 c3 show ?thesis by (intro conjI)
qed

text \<open>
  C10: when the info extractor raises, the video-info endpoint ends with an
  \<open>HTTPException\<close> of status 500 whose detail is "Error fetching video info: " followed
  by \<open>str\<close> of the exception, and returns no metadata; the metadata step of the
  summarizer, on the same failure, returns the three defaults.
\<close>

theorem video_info_failure_is_500:
  "extract_info env (''https://www.youtube.com/watch?v='' @ vid) = Inl e \<longrightarrow>
     get_video_info env vid =
       ([ExtractInfo (''https://www.youtube.com/watch?v='' @ vid)],
        Inl (HTTPException 500 (''Error fetching video info: '' @ str_exn env e)))
     \<and> response_status (snd (get_video_info env vid)) = 500
     \<and> fetch_metadata env (''https://www.youtube.com/watch?v='' @ vid) vid =
         ([ExtractInfo (''https://www.youtube.com/watch?v='' @ vid)],
          Inr (PyStr ''YouTube Video'',
               PyStr (''https://img.youtube.com/vi/'' @ vid @ ''/maxresdefault.jpg''),
               PyStr ''Unknown''))"
  by (simp add: get_video_info_def fetch_metadata_eq default_thumbnail_def Let_def io_defs
        io_bind_simps io_try_except_simps)

theorem video_info_failure_is_500_witness:
  "get_video_info (failing_env (Exception ''video unavailable'')) ''abc123'' =
     ([ExtractInfo ''https://www.youtube.com/watch?v=abc123''],
      Inl (HTTPException 500 ''Error fetching video info: video unavailable''))
   \<and> response_status (snd (get_video_info (failing_env (Exception ''video unavailable'')) ''abc123''))
       = 500"
proof -
  have h: "extract_info (failing_env (Exception ''video unavailable''))
             (''https://www.youtube.com/watch?v='' @ ''abc123'') = Inl (Exception ''video unavailable'')"
    by (simp add: failing_env_def)
  from video_info_failure_is_500
         [of "failing_env (Exception ''video unavailable'')" "''abc123''"
             "Exception ''video unavailable''"] h
  show ?thesis by simp
qed

subsection \<open>The health endpoint\<close>

text \<open>
  C7: the health endpoint returns exactly the dictionary with status "healthy" and
  version "1.0.0"; it takes no argument, calls no imported function and raises nothing.
\<close>

theorem health_check_constant:
  "health_check = ([], Inr [(''status'', ''healthy''), (''version'', ''1.0.0'')])"
  by (simp add: health_check_def ret_def)

end
